theory Spec2Isabelle
  imports Complex_Main
begin

section \<open>Python values used by circos.py\<close>

text \<open>
  The exceptions the script can raise on its own data: indexing past the end of a list
  (\<^verbatim>\<open>row[i]\<close>, \<^verbatim>\<open>[...][0]\<close>) and a failed \<^verbatim>\<open>int(...)\<close> or
  \<^verbatim>\<open>float(...)\<close> conversion. Nothing in the script catches them.
\<close>

datatype py_error = IndexError | ValueError

text \<open>
  The value of a Python float: a finite double is the rational number it denotes;
  comparison of a float with an int is exact on these values and false for NaN.
\<close>

datatype pyfloat = Finite rat | PosInf | NegInf | NaN

fun float_ge :: "pyfloat \<Rightarrow> int \<Rightarrow> bool" where
  "float_ge (Finite q) i = (of_int i \<le> q)"
| "float_ge PosInf i = True"
| "float_ge NegInf i = False"
| "float_ge NaN i = False"

text \<open>\<^verbatim>\<open>str(n)\<close> of an int, as an f-string field \<^verbatim>\<open>{n}\<close> renders it.\<close>

definition digit_char :: "nat \<Rightarrow> char" where
  "digit_char d = ''0123456789'' ! d"

fun digits :: "nat \<Rightarrow> string" where
  "digits n = (if n < 10 then [digit_char n] else digits (n div 10) @ [digit_char (n mod 10)])"

declare digits.simps [simp del]

definition str_int :: "int \<Rightarrow> string" where
  "str_int i = (if i < 0 then CHR ''-'' # digits (nat (- i)) else digits (nat i))"

text \<open>
  A dict is a list of key/value pairs in insertion order with distinct keys.
  \<^verbatim>\<open>d[k] = v\<close> replaces the value of an existing key in place and appends a new key;
  \<^verbatim>\<open>k in d\<close> and \<^verbatim>\<open>d[k]\<close> are \<open>map_of\<close>.
\<close>

type_synonym ('k, 'v) dict = "('k \<times> 'v) list"

fun setitem :: "('k, 'v) dict \<Rightarrow> 'k \<Rightarrow> 'v \<Rightarrow> ('k, 'v) dict" where
  "setitem [] k v = [(k, v)]"
| "setitem ((k', v') # d) k v = (if k' = k then (k, v) # d else (k', v') # setitem d k v)"

section \<open>Annotation extractor\<close>

text \<open>
  What Biopython hands to the script: a record has a sequence and a list of features; a
  feature has a type, a dict of qualifiers (each a list of strings) and a location with
  start, end and strand (1, -1, 0 or None).
\<close>

record feature =
  ftype :: string
  qualifiers :: "string \<rightharpoonup> string list"
  loc_start :: int
  loc_end :: int
  loc_strand :: "int option"

record seq_record =
  seq :: string
  features :: "feature list"

record gene_info =
  start :: int
  endpos :: int
  strand :: string

type_synonym genes = "(string, gene_info) dict"

text \<open>\<^verbatim>\<open>qualifiers.get(key, ["unknown"])[0]\<close>\<close>

definition get_first :: "(string \<rightharpoonup> string list) \<Rightarrow> string \<Rightarrow> py_error + string" where
  "get_first q key =
     (case (case q key of None \<Rightarrow> [''unknown''] | Some vs \<Rightarrow> vs) of
        [] \<Rightarrow> Inl IndexError
      | v # _ \<Rightarrow> Inr v)"

text \<open>Lines 16 to 18: the identifier of a coding feature.\<close>

definition gene_name_of :: "feature \<Rightarrow> py_error + string" where
  "gene_name_of f =
     (case get_first (qualifiers f) ''gene'' of
        Inl e \<Rightarrow> Inl e
      | Inr gene_name \<Rightarrow>
          if gene_name = ''unknown'' then get_first (qualifiers f) ''locus_tag''
          else Inr gene_name)"

text \<open>Lines 20 to 31: the entry stored for a coding feature.\<close>

definition info_of :: "feature \<Rightarrow> gene_info" where
  "info_of f =
     \<lparr> start = loc_start f, endpos = loc_end f,
       strand = (if loc_strand f = Some 1 then ''+'' else ''-'') \<rparr>"

text \<open>The inner loop over \<^verbatim>\<open>record.features\<close>, threading the dict \<^verbatim>\<open>genes\<close>.\<close>

fun features_loop :: "feature list \<Rightarrow> genes \<Rightarrow> py_error + genes" where
  "features_loop [] genes = Inr genes"
| "features_loop (f # fs) genes =
     (if ftype f = ''CDS'' then
        (case gene_name_of f of
           Inl e \<Rightarrow> Inl e
         | Inr gene_name \<Rightarrow> features_loop fs (setitem genes gene_name (info_of f)))
      else features_loop fs genes)"

text \<open>
  The outer loop over the records of the file: \<^verbatim>\<open>contig_length\<close> is assigned at the
  top of every iteration, before the features of that record are read.
\<close>

fun records_loop :: "seq_record list \<Rightarrow> genes \<Rightarrow> int \<Rightarrow> py_error + (genes \<times> int)" where
  "records_loop [] genes contig_length = Inr (genes, contig_length)"
| "records_loop (r # rs) genes contig_length =
     (case features_loop (features r) genes of
        Inl e \<Rightarrow> Inl e
      | Inr genes' \<Rightarrow> records_loop rs genes' (int (length (seq r))))"

definition parse_genbank :: "seq_record list \<Rightarrow> py_error + (genes \<times> int)" where
  "parse_genbank gbk_file = records_loop gbk_file [] 0"

section \<open>Alignment filter\<close>

text \<open>Sequencing the steps of a computation that may raise.\<close>

definition bind :: "'e + 'a \<Rightarrow> ('a \<Rightarrow> 'e + 'b) \<Rightarrow> 'e + 'b" where
  "bind m k = (case m of Inl e \<Rightarrow> Inl e | Inr x \<Rightarrow> k x)"

text \<open>\<^verbatim>\<open>row[i]\<close> for a literal index \<open>i \<ge> 0\<close>.\<close>

definition item :: "string list \<Rightarrow> nat \<Rightarrow> py_error + string" where
  "item row i = (if i < length row then Inr (row ! i) else Inl IndexError)"

text \<open>
  \<^verbatim>\<open>int(row[i])\<close> and \<^verbatim>\<open>float(row[i])\<close>. The conversions of Python's standard
  library are parameters \<open>py_int\<close> and \<open>py_float\<close>: they return \<open>None\<close> where Python
  raises ValueError.
\<close>

definition int_item :: "(string \<Rightarrow> int option) \<Rightarrow> string list \<Rightarrow> nat \<Rightarrow> py_error + int" where
  "int_item py_int row i =
     bind (item row i) (\<lambda>s. case py_int s of None \<Rightarrow> Inl ValueError | Some n \<Rightarrow> Inr n)"

definition float_item ::
  "(string \<Rightarrow> pyfloat option) \<Rightarrow> string list \<Rightarrow> nat \<Rightarrow> py_error + pyfloat" where
  "float_item py_float row i =
     bind (item row i) (\<lambda>s. case py_float s of None \<Rightarrow> Inl ValueError | Some x \<Rightarrow> Inr x)"

record blast_row =
  query_id :: string
  subject_id :: string
  identity :: pyfloat
  alignment_length :: int
  mismatches :: int
  gap_opens :: int
  q_start :: int
  q_end :: int
  s_start :: int
  s_end :: int
  evalue :: pyfloat
  bit_score :: pyfloat

text \<open>Lines 40 to 51: the twelve columns, read and converted in this order.\<close>

definition parse_row ::
  "(string \<Rightarrow> int option) \<Rightarrow> (string \<Rightarrow> pyfloat option) \<Rightarrow> string list \<Rightarrow> py_error + blast_row"
where
  "parse_row py_int py_float row =
     bind (item row 0) (\<lambda>c0.
     bind (item row 1) (\<lambda>c1.
     bind (float_item py_float row 2) (\<lambda>c2.
     bind (int_item py_int row 3) (\<lambda>c3.
     bind (int_item py_int row 4) (\<lambda>c4.
     bind (int_item py_int row 5) (\<lambda>c5.
     bind (int_item py_int row 6) (\<lambda>c6.
     bind (int_item py_int row 7) (\<lambda>c7.
     bind (int_item py_int row 8) (\<lambda>c8.
     bind (int_item py_int row 9) (\<lambda>c9.
     bind (float_item py_float row 10) (\<lambda>c10.
     bind (float_item py_float row 11) (\<lambda>c11.
       Inr \<lparr> query_id = c0, subject_id = c1, identity = c2, alignment_length = c3,
             mismatches = c4, gap_opens = c5, q_start = c6, q_end = c7, s_start = c8,
             s_end = c9, evalue = c10, bit_score = c11 \<rparr>))))))))))))"

type_synonym alignment = "string \<times> string \<times> int \<times> int \<times> int \<times> int"

text \<open>Line 55: the tuple appended to \<^verbatim>\<open>blast_data\<close>.\<close>

definition kept_fields :: "blast_row \<Rightarrow> alignment" where
  "kept_fields r = (query_id r, subject_id r, q_start r, q_end r, s_start r, s_end r)"

text \<open>
  The loop over the rows the csv reader yields, one \<open>string list\<close> per line of the
  report, threading the list \<^verbatim>\<open>blast_data\<close>.
\<close>

fun rows_loop ::
  "(string \<Rightarrow> int option) \<Rightarrow> (string \<Rightarrow> pyfloat option) \<Rightarrow> string list list \<Rightarrow>
   alignment list \<Rightarrow> py_error + alignment list"
where
  "rows_loop py_int py_float [] blast_data = Inr blast_data"
| "rows_loop py_int py_float (row # rows) blast_data =
     (case parse_row py_int py_float row of
        Inl e \<Rightarrow> Inl e
      | Inr r \<Rightarrow>
          rows_loop py_int py_float rows
            (if float_ge (identity r) 50 then blast_data @ [kept_fields r] else blast_data))"

definition parse_blast_report ::
  "(string \<Rightarrow> int option) \<Rightarrow> (string \<Rightarrow> pyfloat option) \<Rightarrow> string list list \<Rightarrow>
   py_error + alignment list"
where
  "parse_blast_report py_int py_float blast_file = rows_loop py_int py_float blast_file []"

section \<open>File emitters\<close>

text \<open>
  A file opened with mode \<^verbatim>\<open>"w"\<close> starts empty; it is the list of the strings passed
  to \<^verbatim>\<open>f.write\<close>, in order. Standard output is the list of the strings passed to
  \<^verbatim>\<open>print\<close>, in order.
\<close>

definition generate_karyotype :: "int \<Rightarrow> int \<Rightarrow> string \<Rightarrow> string \<Rightarrow> string list" where
  "generate_karyotype query_length subject_length query_name subject_name =
     (let f = [];
          f = f @ [''chr - '' @ query_name @ '' '' @ query_name @ '' 0 '' @
                   str_int query_length @ '' green\<newline>''];
          f = f @ [''chr - '' @ subject_name @ '' '' @ subject_name @ '' 0 '' @
                   str_int subject_length @ '' blue\<newline>'']
      in f)"

fun labels_loop :: "string \<Rightarrow> genes \<Rightarrow> string list \<Rightarrow> string list" where
  "labels_loop name [] f = f"
| "labels_loop name ((gene_name, gene_info) # items) f =
     labels_loop name items
       (f @ [name @ '' '' @ str_int (start gene_info) @ '' '' @ str_int (endpos gene_info) @
             '' '' @ gene_name @ ''\<newline>''])"

definition generate_labels :: "genes \<Rightarrow> genes \<Rightarrow> string \<Rightarrow> string \<Rightarrow> string list" where
  "generate_labels query_genes subject_genes query_name subject_name =
     labels_loop subject_name subject_genes (labels_loop query_name query_genes [])"

section \<open>Link emitter\<close>

record link_state =
  out :: "string list"
  printed :: "string list"
  link_count :: int

fun links_loop ::
  "alignment list \<Rightarrow> genes \<Rightarrow> genes \<Rightarrow> string \<Rightarrow> string \<Rightarrow> link_state \<Rightarrow> link_state"
where
  "links_loop [] query_genes subject_genes query_name subject_name st = st"
| "links_loop ((qid, sid, qs, qe, ss, se) # blast_data) query_genes subject_genes
       query_name subject_name st =
     (case map_of query_genes qid of
        None \<Rightarrow>
          links_loop blast_data query_genes subject_genes query_name subject_name
            (st\<lparr>printed := printed st @
                   [''Query gene '' @ qid @ '' not found in query GenBank file.'']\<rparr>)
      | Some query_gene \<Rightarrow>
          (let q_genome_start = start query_gene + qs;
               q_genome_end = start query_gene + qe
           in case map_of subject_genes sid of
                None \<Rightarrow>
                  links_loop blast_data query_genes subject_genes query_name subject_name
                    (st\<lparr>printed := printed st @
                           [''Subject gene '' @ sid @ '' not found in subject GenBank file.'']\<rparr>)
              | Some subject_gene \<Rightarrow>
                  (let s_genome_start = start subject_gene + ss;
                       s_genome_end = start subject_gene + se
                   in links_loop blast_data query_genes subject_genes query_name subject_name
                        (st\<lparr>out := out st @
                               [query_name @ '' '' @ str_int q_genome_start @ '' '' @
                                str_int q_genome_end @ '' '' @ subject_name @ '' '' @
                                str_int s_genome_start @ '' '' @ str_int s_genome_end @
                                ''\<newline>''],
                            link_count := link_count st + 1\<rparr>))))"

text \<open>The links file and what the function prints; it returns nothing.\<close>

definition generate_links ::
  "alignment list \<Rightarrow> genes \<Rightarrow> genes \<Rightarrow> string \<Rightarrow> string \<Rightarrow> string list \<times> string list"
where
  "generate_links blast_data query_genes subject_genes query_name subject_name =
     (let st = links_loop blast_data query_genes subject_genes query_name subject_name
                 \<lparr>out = [], printed = [], link_count = 0\<rparr>
      in (out st, printed st @ [''Generated '' @ str_int (link_count st) @ '' links.'']))"

section \<open>The script\<close>

text \<open>
  What a run leaves behind: the exception that ended it, if any, everything printed, and
  each output file (\<open>None\<close> when the run never opened it). The three output paths are
  computed from the command line with \<^verbatim>\<open>os.path\<close> and are taken as given.
\<close>

record outcome =
  raised :: "py_error option"
  stdout :: "string list"
  karyotype_txt :: "string list option"
  labels_txt :: "string list option"
  links_txt :: "string list option"

definition aborted :: "py_error \<Rightarrow> string list \<Rightarrow> outcome" where
  "aborted e printed_so_far =
     \<lparr> raised = Some e, stdout = printed_so_far, karyotype_txt = None, labels_txt = None,
       links_txt = None \<rparr>"

definition main ::
  "(string \<Rightarrow> int option) \<Rightarrow> (string \<Rightarrow> pyfloat option) \<Rightarrow> seq_record list \<Rightarrow>
   seq_record list \<Rightarrow> string list list \<Rightarrow> string \<Rightarrow> string \<Rightarrow> string \<Rightarrow> string \<Rightarrow> string \<Rightarrow>
   outcome"
where
  "main py_int py_float query_gbk subject_gbk blast_report query_name subject_name
       karyotype_file labels_file links_file =
     (case parse_genbank query_gbk of
        Inl e \<Rightarrow> aborted e []
      | Inr (query_genes, query_length) \<Rightarrow>
     (case parse_genbank subject_gbk of
        Inl e \<Rightarrow> aborted e []
      | Inr (subject_genes, subject_length) \<Rightarrow>
     (let p1 = [''Parsed '' @ str_int (int (length query_genes)) @
                  '' genes from query GenBank file.'',
                ''Parsed '' @ str_int (int (length subject_genes)) @
                  '' genes from subject GenBank file.'']
      in case parse_blast_report py_int py_float blast_report of
           Inl e \<Rightarrow> aborted e p1
         | Inr blast_data \<Rightarrow>
     (let p2 = p1 @ [''Parsed '' @ str_int (int (length blast_data)) @
                       '' alignments from BLAST report.''];
          karyotype = generate_karyotype query_length subject_length query_name subject_name;
          labels = generate_labels query_genes subject_genes query_name subject_name;
          (links, p3) = generate_links blast_data query_genes subject_genes query_name
                          subject_name
      in \<lparr> raised = None,
           stdout = p2 @ p3 @
             [''Circos input files generated successfully!'',
              ''Karyotype file: '' @ karyotype_file,
              ''Labels file: '' @ labels_file,
              ''Links file: '' @ links_file],
           karyotype_txt = Some karyotype, labels_txt = Some labels,
           links_txt = Some links \<rparr>))))"

section \<open>Notions used to state the results\<close>

text \<open>The coding features of a file, in the order the two loops visit them.\<close>

definition cds_of :: "seq_record list \<Rightarrow> feature list" where
  "cds_of recs = filter (\<lambda>f. ftype f = ''CDS'') (concat (map features recs))"

text \<open>An alignment whose two identifiers are keys of the two dicts.\<close>

definition resolved :: "genes \<Rightarrow> genes \<Rightarrow> alignment \<Rightarrow> bool" where
  "resolved query_genes subject_genes a =
     (case a of (qid, sid, qs, qe, ss, se) \<Rightarrow>
        map_of query_genes qid \<noteq> None \<and> map_of subject_genes sid \<noteq> None)"

text \<open>The line of the links file for a resolved alignment.\<close>

definition link_line :: "genes \<Rightarrow> genes \<Rightarrow> string \<Rightarrow> string \<Rightarrow> alignment \<Rightarrow> string" where
  "link_line query_genes subject_genes query_name subject_name a =
     (case a of (qid, sid, qs, qe, ss, se) \<Rightarrow>
        query_name @ '' '' @ str_int (start (the (map_of query_genes qid)) + qs) @ '' '' @
        str_int (start (the (map_of query_genes qid)) + qe) @ '' '' @ subject_name @ '' '' @
        str_int (start (the (map_of subject_genes sid)) + ss) @ '' '' @
        str_int (start (the (map_of subject_genes sid)) + se) @ ''\<newline>'')"

text \<open>The message printed for an alignment that is not resolved.\<close>

definition diagnostic :: "genes \<Rightarrow> alignment \<Rightarrow> string" where
  "diagnostic query_genes a =
     (case a of (qid, sid, qs, qe, ss, se) \<Rightarrow>
        if map_of query_genes qid = None
        then ''Query gene '' @ qid @ '' not found in query GenBank file.''
        else ''Subject gene '' @ sid @ '' not found in subject GenBank file.'')"

text \<open>The line of the labels file for one entry of a dict.\<close>

definition label_line :: "string \<Rightarrow> string \<times> gene_info \<Rightarrow> string" where
  "label_line name entry =
     name @ '' '' @ str_int (start (snd entry)) @ '' '' @ str_int (endpos (snd entry)) @
     '' '' @ fst entry @ ''\<newline>''"

text \<open>
  The integer a decimal numeral denotes, with an optional leading minus sign: what a reader
  of an output file recovers from a field written with \<open>str_int\<close>.
\<close>

definition digit_value :: "char \<Rightarrow> nat" where
  "digit_value c = of_char c - 48"

definition decimal_value :: "string \<Rightarrow> nat" where
  "decimal_value s = foldl (\<lambda>a c. 10 * a + digit_value c) 0 s"

definition int_of_decimal :: "string \<Rightarrow> int" where
  "int_of_decimal s =
     (case s of
        [] \<Rightarrow> 0
      | c # cs \<Rightarrow> if c = CHR ''-'' then - int (decimal_value cs) else int (decimal_value s))"

text \<open>A file with every strand annotation removed, and a dict with every strand reset.\<close>

definition erase_strand :: "seq_record list \<Rightarrow> seq_record list" where
  "erase_strand recs =
     map (\<lambda>r. r\<lparr>features := map (\<lambda>f. f\<lparr>loc_strand := None\<rparr>) (features r)\<rparr>) recs"

definition forget_strand :: "genes \<Rightarrow> genes" where
  "forget_strand d = map (\<lambda>(k, v). (k, v\<lparr>strand := ''-''\<rparr>)) d"

section \<open>Conversions on the literals of the examples\<close>

text \<open>
  The values Python's \<^verbatim>\<open>int\<close> and \<^verbatim>\<open>float\<close> give on the literals used in the
  examples below; \<^verbatim>\<open>float("49.999")\<close> is the double 7036733680278045 / 2^47 and
  \<^verbatim>\<open>float("0.001")\<close> is the double 1152921504606847 / 2^60.
\<close>

definition sample_int :: "string \<Rightarrow> int option" where
  "sample_int = map_of [(''0'', 0), (''1'', 1), (''40'', 40), (''50'', 50), (''100'', 100)]"

definition sample_float :: "string \<Rightarrow> pyfloat option" where
  "sample_float =
     map_of [(''50.0'', Finite 50),
             (''49.999'', Finite (7036733680278045 / 140737488355328)),
             (''0.001'', Finite (1152921504606847 / 1152921504606846976)),
             (''80'', Finite 80), (''10.0'', Finite 10), (''200'', Finite 200)]"

section \<open>Lemmas about the loops\<close>

lemmas eval_defs = sample_int_def sample_float_def parse_blast_report_def parse_row_def bind_def
  item_def int_item_def float_item_def kept_fields_def generate_links_def str_int_def
  digits.simps digit_char_def Let_def

lemmas genbank_defs = parse_genbank_def cds_of_def gene_name_of_def get_first_def info_of_def
  generate_labels_def str_int_def digits.simps digit_char_def

lemma str_int_examples: "str_int 1005 = ''1005''" "str_int (- 42) = ''-42''" "str_int 0 = ''0''"
  by (simp_all add: str_int_def digit_char_def digits.simps)

lemma bind_Inr_iff: "bind m k = Inr y \<longleftrightarrow> (\<exists>x. m = Inr x \<and> k x = Inr y)"
  by (cases m) (simp_all add: bind_def)

lemma bind_Inl: "m = Inl e \<Longrightarrow> bind m k = Inl e"
  by (simp add: bind_def)

lemma rows_loop_append:
  "rows_loop cvi cvf (xs @ ys) acc =
     (case rows_loop cvi cvf xs acc of Inl e \<Rightarrow> Inl e | Inr acc' \<Rightarrow> rows_loop cvi cvf ys acc')"
  by (induction xs arbitrary: acc) (auto split: sum.splits)

lemma rows_loop_acc:
  "rows_loop cvi cvf rows acc =
     (case rows_loop cvi cvf rows [] of Inl e \<Rightarrow> Inl e | Inr res \<Rightarrow> Inr (acc @ res))"
proof (induction rows arbitrary: acc)
  case Nil
  show ?case by simp
next
  case (Cons row rows)
  show ?case
  proof (cases "parse_row cvi cvf row")
    case (Inl e)
    then show ?thesis by simp
  next
    case (Inr r)
    show ?thesis
      using Cons.IH [of "acc @ [kept_fields r]"] Cons.IH [of "[kept_fields r]"] Cons.IH [of acc]
      by (simp add: Inr split: sum.splits)
  qed
qed

lemma rows_loop_filter:
  "rows_loop cvi cvf rows acc = Inr res \<Longrightarrow>
     \<exists>parsed. map (parse_row cvi cvf) rows = map Inr parsed \<and>
       res = acc @ map kept_fields (filter (\<lambda>r. float_ge (identity r) 50) parsed)"
proof (induction rows arbitrary: acc)
  case Nil
  then show ?case by simp
next
  case (Cons row rows)
  from Cons.prems obtain r where r: "parse_row cvi cvf row = Inr r"
    by (cases "parse_row cvi cvf row") simp_all
  let ?acc = "if float_ge (identity r) 50 then acc @ [kept_fields r] else acc"
  from Cons.prems r have "rows_loop cvi cvf rows ?acc = Inr res" by simp
  from Cons.IH [OF this] obtain parsed where
    p: "map (parse_row cvi cvf) rows = map Inr parsed"
       "res = ?acc @ map kept_fields (filter (\<lambda>r. float_ge (identity r) 50) parsed)"
    by blast
  show ?case
    by (rule exI [of _ "r # parsed"]) (use r p in simp)
qed

lemma links_loop_out:
  "out (links_loop bd qg sg qn sn st) =
     out st @ map (link_line qg sg qn sn) (filter (resolved qg sg) bd)"
  by (induction bd qg sg qn sn st rule: links_loop.induct)
     (simp_all add: resolved_def link_line_def Let_def split: option.splits)

lemma links_loop_printed:
  "printed (links_loop bd qg sg qn sn st) =
     printed st @ map (diagnostic qg) (filter (\<lambda>a. \<not> resolved qg sg a) bd)"
  by (induction bd qg sg qn sn st rule: links_loop.induct)
     (simp_all add: resolved_def diagnostic_def Let_def split: option.splits)

lemma links_loop_count:
  "link_count (links_loop bd qg sg qn sn st) =
     link_count st + int (length (filter (resolved qg sg) bd))"
  by (induction bd qg sg qn sn st rule: links_loop.induct)
     (simp_all add: resolved_def Let_def split: option.splits)

lemma generate_links_eq:
  "generate_links bd qg sg qn sn =
     (map (link_line qg sg qn sn) (filter (resolved qg sg) bd),
      map (diagnostic qg) (filter (\<lambda>a. \<not> resolved qg sg a) bd) @
      [''Generated '' @ str_int (int (length (filter (resolved qg sg) bd))) @ '' links.''])"
  by (simp add: generate_links_def Let_def links_loop_out links_loop_printed links_loop_count)

lemma labels_loop_eq: "labels_loop name items f = f @ map (label_line name) items"
  by (induction name items f rule: labels_loop.induct) (simp_all add: label_line_def)

lemma generate_labels_eq:
  "generate_labels qg sg qn sn = map (label_line qn) qg @ map (label_line sn) sg"
  by (simp add: generate_labels_def labels_loop_eq)

lemma item_Inr: "item row i = Inr s \<Longrightarrow> i < length row \<and> s = row ! i"
  by (auto simp: item_def split: if_splits)

lemma int_item_Inr: "int_item cvi row i = Inr n \<Longrightarrow> i < length row \<and> cvi (row ! i) = Some n"
  by (auto simp: int_item_def bind_Inr_iff dest!: item_Inr split: option.splits)

lemma float_item_Inr:
  "float_item cvf row i = Inr x \<Longrightarrow> i < length row \<and> cvf (row ! i) = Some x"
  by (auto simp: float_item_def bind_Inr_iff dest!: item_Inr split: option.splits)

lemma parse_row_Inr:
  assumes "parse_row cvi cvf row = Inr r"
  shows "12 \<le> length row" "cvf (row ! 2) = Some (identity r)"
    "\<forall>i\<in>{3..9}. cvi (row ! i) \<noteq> None"
    "cvf (row ! 10) \<noteq> None" "cvf (row ! 11) \<noteq> None"
proof -
  from assms obtain c2 c3 c4 c5 c6 c7 c8 c9 c10 c11 where
    f: "float_item cvf row 2 = Inr c2" "int_item cvi row 3 = Inr c3"
       "int_item cvi row 4 = Inr c4" "int_item cvi row 5 = Inr c5"
       "int_item cvi row 6 = Inr c6" "int_item cvi row 7 = Inr c7"
       "int_item cvi row 8 = Inr c8" "int_item cvi row 9 = Inr c9"
       "float_item cvf row 10 = Inr c10" "float_item cvf row 11 = Inr c11"
       and id: "identity r = c2"
    unfolding parse_row_def bind_Inr_iff by auto
  from f(10) show "12 \<le> length row" by (auto dest: float_item_Inr)
  from f(1) id show "cvf (row ! 2) = Some (identity r)" by (auto dest: float_item_Inr)
  from f(9) show "cvf (row ! 10) \<noteq> None" by (auto dest: float_item_Inr)
  from f(10) show "cvf (row ! 11) \<noteq> None" by (auto dest: float_item_Inr)
  show "\<forall>i\<in>{3..9}. cvi (row ! i) \<noteq> None"
  proof
    fix i :: nat assume "i \<in> {3..9}"
    then have "i = 3 \<or> i = 4 \<or> i = 5 \<or> i = 6 \<or> i = 7 \<or> i = 8 \<or> i = 9" by auto
    with f(2-8) show "cvi (row ! i) \<noteq> None" by (auto dest: int_item_Inr)
  qed
qed

lemma rows_loop_Cons_Inl:
  "parse_row cvi cvf row = Inl e \<Longrightarrow> \<exists>e'. rows_loop cvi cvf (pre @ row # post) acc = Inl e'"
  by (simp add: rows_loop_append split: sum.splits)

lemma main_aborts:
  "parse_blast_report cvi cvf rows = Inl e \<Longrightarrow>
     raised (main cvi cvf q s rows qn sn kf lf lkf) \<noteq> None \<and>
     karyotype_txt (main cvi cvf q s rows qn sn kf lf lkf) = None \<and>
     labels_txt (main cvi cvf q s rows qn sn kf lf lkf) = None \<and>
     links_txt (main cvi cvf q s rows qn sn kf lf lkf) = None"
  by (simp add: main_def aborted_def Let_def split: sum.splits prod.splits)

text \<open>
  C9. Every line of the report has its twelve columns read and converted before the identity
  test: a row with fewer than twelve columns, or with a numeric column that does not
  convert, makes \<open>parse_blast_report\<close> raise, whatever its percent identity and whatever
  rows surround it, and the run ends with that exception before any output file is opened.
\<close>
theorem malformed_row_aborts:
  assumes "length row < 12 \<or> cvf (row ! 2) = None \<or> (\<exists>i\<in>{3..9}. cvi (row ! i) = None) \<or>
           cvf (row ! 10) = None \<or> cvf (row ! 11) = None"
  shows "(\<exists>e. parse_blast_report cvi cvf (pre @ row # post) = Inl e) \<and>
         raised (main cvi cvf q s (pre @ row # post) qn sn kf lf lkf) \<noteq> None \<and>
         links_txt (main cvi cvf q s (pre @ row # post) qn sn kf lf lkf) = None"
proof -
  have "\<exists>e. parse_row cvi cvf row = Inl e"
  proof (cases "parse_row cvi cvf row")
    case (Inl e)
    then show ?thesis by blast
  next
    case (Inr r)
    from parse_row_Inr [OF Inr] assms show ?thesis by auto
  qed
  then obtain e where "parse_row cvi cvf row = Inl e" ..
  from rows_loop_Cons_Inl [OF this]
  obtain e' where e': "parse_blast_report cvi cvf (pre @ row # post) = Inl e'"
    unfolding parse_blast_report_def by blast
  from main_aborts [OF e'] e' show ?thesis by blast
qed

text \<open>
  C3. A row that converts contributes its tuple to the collection, at its own place between
  the contributions of the rows before and after it, exactly when its percent identity is
  at least 50; and "at least 50" is the comparison of the float's value with 50 (true for
  a finite value \<open>v\<close> with \<open>50 \<le> v\<close> and for infinity, false for NaN). The boundary values
  50.0 and 49.999 are the instance below.
\<close>
theorem identity_filter:
  assumes "parse_row cvi cvf row = Inr r"
    and "parse_blast_report cvi cvf pre = Inr xs"
    and "parse_blast_report cvi cvf post = Inr ys"
  shows "parse_blast_report cvi cvf (pre @ row # post) =
           Inr (xs @ (if float_ge (identity r) 50 then [kept_fields r] else []) @ ys) \<and>
         (float_ge (identity r) 50 \<longleftrightarrow>
            identity r = PosInf \<or> (\<exists>v. identity r = Finite v \<and> 50 \<le> v))"
proof -
  have "float_ge (identity r) 50 \<longleftrightarrow>
          identity r = PosInf \<or> (\<exists>v. identity r = Finite v \<and> 50 \<le> v)"
    by (cases "identity r") simp_all
  moreover have "parse_blast_report cvi cvf (pre @ row # post) =
      Inr (xs @ (if float_ge (identity r) 50 then [kept_fields r] else []) @ ys)"
    using assms
      rows_loop_acc [of cvi cvf post "xs @ [kept_fields r]"]
      rows_loop_acc [of cvi cvf post xs]
    by (simp add: parse_blast_report_def rows_loop_append)
  ultimately show ?thesis by blast
qed

text \<open>
  C8. The collection returned by \<open>parse_blast_report\<close> is the list of the input rows, in
  input order, restricted to those with identity at least 50 (nothing is sorted, removed
  as a duplicate or merged); and the links file holds, in that same order, one line for
  each resolved row of the collection.
\<close>
theorem rows_and_links_in_input_order:
  assumes "parse_blast_report cvi cvf rows = Inr blast_data"
  shows "(\<exists>parsed. map (parse_row cvi cvf) rows = map Inr parsed \<and>
            blast_data = map kept_fields (filter (\<lambda>r. float_ge (identity r) 50) parsed)) \<and>
         fst (generate_links blast_data qg sg qn sn) =
           map (link_line qg sg qn sn) (filter (resolved qg sg) blast_data)"
  using rows_loop_filter [of cvi cvf rows "[]" blast_data] assms
  by (simp add: parse_blast_report_def generate_links_eq)

text \<open>
  C2. A row whose query and subject identifiers are both keys of their dicts produces one
  line of the links file, at its own place, whose four coordinates are the start of the
  query gene plus the row's query start and query end, and the start of the subject gene
  plus the row's subject start and subject end.
\<close>
theorem link_coordinates:
  assumes "map_of qg qid = Some query_gene" and "map_of sg sid = Some subject_gene"
  shows "fst (generate_links (pre @ (qid, sid, qs, qe, ss, se) # post) qg sg qn sn) =
           fst (generate_links pre qg sg qn sn) @
           [qn @ '' '' @ str_int (start query_gene + qs) @ '' '' @
            str_int (start query_gene + qe) @ '' '' @ sn @ '' '' @
            str_int (start subject_gene + ss) @ '' '' @
            str_int (start subject_gene + se) @ ''\<newline>''] @
           fst (generate_links post qg sg qn sn)"
  using assms by (simp add: generate_links_eq resolved_def link_line_def)

text \<open>
  C4. A row whose query identifier or subject identifier is not a key of its dict adds no
  line to the links file (the file is the one obtained without that row); the message naming
  the side that failed is printed at the row's place; the rows after it are processed as
  usual; and the last thing printed reports as the link count the number of lines written.
\<close>
theorem unresolved_row_skipped:
  assumes "map_of qg qid = None \<or> map_of sg sid = None"
  shows "fst (generate_links (pre @ (qid, sid, qs, qe, ss, se) # post) qg sg qn sn) =
           fst (generate_links (pre @ post) qg sg qn sn) \<and>
         snd (generate_links (pre @ (qid, sid, qs, qe, ss, se) # post) qg sg qn sn) =
           butlast (snd (generate_links pre qg sg qn sn)) @
           [if map_of qg qid = None
            then ''Query gene '' @ qid @ '' not found in query GenBank file.''
            else ''Subject gene '' @ sid @ '' not found in subject GenBank file.''] @
           butlast (snd (generate_links post qg sg qn sn)) @
           [''Generated '' @
            str_int (int (length
              (fst (generate_links (pre @ (qid, sid, qs, qe, ss, se) # post) qg sg qn sn)))) @
            '' links.'']"
  using assms by (auto simp add: generate_links_eq resolved_def diagnostic_def)

lemma digit_value_digit_char: "d < 10 \<Longrightarrow> digit_value (digit_char d) = d"
proof -
  assume "d < 10"
  then have "d \<in> {0, 1, 2, 3, 4, 5, 6, 7, 8, 9}" by auto
  then show ?thesis by (auto simp: digit_value_def digit_char_def)
qed

lemma digit_char_not_minus: "d < 10 \<Longrightarrow> digit_char d \<noteq> CHR ''-''"
proof -
  assume "d < 10"
  then have "d \<in> {0, 1, 2, 3, 4, 5, 6, 7, 8, 9}" by auto
  then show ?thesis by (auto simp: digit_char_def)
qed

lemma decimal_value_snoc:
  "decimal_value (s @ [c]) = 10 * decimal_value s + digit_value c"
  by (simp add: decimal_value_def)

lemma decimal_value_digits: "decimal_value (digits n) = n"
proof (induction n rule: digits.induct)
  case (1 n)
  show ?case
  proof (cases "n < 10")
    case True
    then show ?thesis
      by (subst digits.simps) (simp add: decimal_value_def digit_value_digit_char)
  next
    case False
    with "1.IH" have "decimal_value (digits (n div 10)) = n div 10" by simp
    with False show ?thesis
      by (subst digits.simps) (simp add: decimal_value_snoc digit_value_digit_char)
  qed
qed

lemma digits_head: "\<exists>c cs. digits n = c # cs \<and> c \<noteq> CHR ''-''"
proof (induction n rule: digits.induct)
  case (1 n)
  show ?case
  proof (cases "n < 10")
    case True
    then show ?thesis by (subst digits.simps) (simp add: digit_char_not_minus)
  next
    case False
    with "1.IH" obtain c cs where "digits (n div 10) = c # cs" "c \<noteq> CHR ''-''" by blast
    with False show ?thesis by (subst digits.simps) simp
  qed
qed

lemma int_of_decimal_str_int: "int_of_decimal (str_int i) = i"
proof (cases "i < 0")
  case True
  then show ?thesis by (simp add: int_of_decimal_def str_int_def decimal_value_digits)
next
  case False
  obtain c cs where d: "digits (nat i) = c # cs" "c \<noteq> CHR ''-''"
    using digits_head by blast
  have "decimal_value (c # cs) = nat i" using decimal_value_digits [of "nat i"] d by simp
  with False d show ?thesis by (simp add: int_of_decimal_def str_int_def)
qed


text \<open>
  C7. The karyotype file always consists of exactly two writes, each of the form
  \<^verbatim>\<open>chr - <name> <name> 0 <length> <color>\<close>: first the query genome with the color
  green, then the subject genome with the color blue; the length field of each line is
  the decimal numeral of that genome's length, so the length can be read back from it.
\<close>
theorem karyotype_two_lines:
  "\<exists>ql sl.
     generate_karyotype query_length subject_length query_name subject_name =
       [''chr - '' @ query_name @ '' '' @ query_name @ '' 0 '' @ ql @ '' green\<newline>'',
        ''chr - '' @ subject_name @ '' '' @ subject_name @ '' 0 '' @ sl @ '' blue\<newline>''] \<and>
     ql = str_int query_length \<and> int_of_decimal ql = query_length \<and>
     sl = str_int subject_length \<and> int_of_decimal sl = subject_length \<and>
     length (generate_karyotype query_length subject_length query_name subject_name) = 2"
  by (simp add: generate_karyotype_def int_of_decimal_str_int)


lemma map_of_setitem: "map_of (setitem d k v) = (map_of d)(k \<mapsto> v)"
  by (induction d k v rule: setitem.induct) (auto simp: fun_eq_iff)

lemma keys_setitem: "set (map fst (setitem d k v)) = insert k (set (map fst d))"
  by (induction d k v rule: setitem.induct) auto

lemma distinct_setitem: "distinct (map fst d) \<Longrightarrow> distinct (map fst (setitem d k v))"
proof (induction d k v rule: setitem.induct)
  case (1 k v)
  show ?case by simp
next
  case (2 k' v' d k v)
  then show ?case using keys_setitem [of d k v] by auto
qed

lemma features_loop_append:
  "features_loop (xs @ ys) d =
     (case features_loop xs d of Inl e \<Rightarrow> Inl e | Inr d' \<Rightarrow> features_loop ys d')"
  by (induction xs arbitrary: d) (auto split: sum.splits)

lemma features_loop_cds:
  "features_loop (filter (\<lambda>f. ftype f = ''CDS'') fs) d = features_loop fs d"
  by (induction fs arbitrary: d) (auto split: sum.splits)

lemma features_loop_distinct:
  "features_loop fs d = Inr g \<Longrightarrow> distinct (map fst d) \<Longrightarrow> distinct (map fst g)"
  by (induction fs arbitrary: d) (auto split: sum.splits if_splits intro: distinct_setitem)

lemma features_loop_other:
  "features_loop fs d = Inr g \<Longrightarrow> \<forall>h\<in>set fs. gene_name_of h \<noteq> Inr name \<Longrightarrow>
     map_of g name = map_of d name"
  by (induction fs arbitrary: d) (auto split: sum.splits if_splits simp: map_of_setitem)

lemma records_loop_features:
  "records_loop recs d n = Inr (g, m) \<Longrightarrow> features_loop (cds_of recs) d = Inr g"
proof (induction recs arbitrary: d n)
  case Nil
  then show ?case by (simp add: cds_of_def)
next
  case (Cons r recs)
  from Cons.prems obtain d' where
    d': "features_loop (features r) d = Inr d'"
    and rest: "records_loop recs d' (int (length (seq r))) = Inr (g, m)"
    by (auto split: sum.splits)
  from Cons.IH [OF rest] have "features_loop (cds_of recs) d' = Inr g" .
  with d' show ?case
    by (simp add: cds_of_def features_loop_append features_loop_cds)
qed

lemma records_loop_length:
  "records_loop recs d n = Inr (g, m) \<Longrightarrow>
     m = (if recs = [] then n else int (length (seq (last recs))))"
  by (induction recs arbitrary: d n) (auto split: sum.splits)

lemma parse_genbank_entry:
  assumes pg: "parse_genbank recs = Inr (genes, n)"
    and split: "cds_of recs = pre @ f # post"
    and name: "gene_name_of f = Inr name"
    and later: "\<forall>g\<in>set post. gene_name_of g \<noteq> Inr name"
  shows "distinct (map fst genes)" "map_of genes name = Some (info_of f)"
proof -
  from pg have fl: "features_loop (pre @ f # post) [] = Inr genes"
    unfolding parse_genbank_def using records_loop_features split by metis
  then show "distinct (map fst genes)" by (rule features_loop_distinct) simp
  have "f \<in> set (cds_of recs)" using split by simp
  then have cds: "ftype f = ''CDS''" by (simp add: cds_of_def)
  from fl obtain d1 where d1: "features_loop pre [] = Inr d1"
    and "features_loop (f # post) d1 = Inr genes"
    by (auto simp: features_loop_append split: sum.splits)
  with cds name have "features_loop post (setitem d1 name (info_of f)) = Inr genes" by simp
  from features_loop_other [OF this later]
  show "map_of genes name = Some (info_of f)" by (simp add: map_of_setitem)
qed

lemma distinct_entry_split:
  assumes "distinct (map fst d)" and "map_of d k = Some v"
  shows "\<exists>us vs. d = us @ (k, v) # vs \<and> k \<notin> fst ` set us \<and> k \<notin> fst ` set vs"
proof -
  from assms(2) have "(k, v) \<in> set d" by (rule map_of_SomeD)
  then obtain us vs where d: "d = us @ (k, v) # vs" by (auto dest: split_list)
  with assms(1) have "k \<notin> fst ` set us \<and> k \<notin> fst ` set vs" by auto
  with d show ?thesis by blast
qed

text \<open>
  C6. Let \<open>f\<close> be the last coding feature of a file whose identifier is \<open>name\<close> (any
  number of earlier coding features may share it). The dict returned by \<open>parse_genbank\<close>
  has exactly one entry with key \<open>name\<close>, and it holds the start and end of \<open>f\<close> and the
  strand \<^verbatim>\<open>+\<close> if the strand of \<open>f\<close> is 1, \<^verbatim>\<open>-\<close> otherwise;
  the labels file has, for that genome, exactly one line written from an entry with that
  key, carrying the start and end of \<open>f\<close>, whether the genome is the query or the subject.
\<close>
theorem last_write_wins:
  assumes "parse_genbank recs = Inr (genes, n)"
    and "cds_of recs = pre @ f # post"
    and "gene_name_of f = Inr name"
    and "\<forall>g\<in>set post. gene_name_of g \<noteq> Inr name"
  shows "\<exists>us vs.
           genes =
             us @
             (name, \<lparr>start = loc_start f, endpos = loc_end f,
                     strand = (if loc_strand f = Some 1 then ''+'' else ''-'')\<rparr>) # vs \<and>
           name \<notin> fst ` set us \<and> name \<notin> fst ` set vs \<and>
           generate_labels genes other query_name subject_name =
             generate_labels us [] query_name subject_name @
             [query_name @ '' '' @ str_int (loc_start f) @ '' '' @ str_int (loc_end f) @
              '' '' @ name @ ''\<newline>''] @
             generate_labels vs other query_name subject_name \<and>
           generate_labels other genes query_name subject_name =
             generate_labels other us query_name subject_name @
             [subject_name @ '' '' @ str_int (loc_start f) @ '' '' @ str_int (loc_end f) @
              '' '' @ name @ ''\<newline>''] @
             generate_labels [] vs query_name subject_name"
proof -
  let ?entry = "\<lparr>start = loc_start f, endpos = loc_end f,
                 strand = (if loc_strand f = Some 1 then ''+'' else ''-'')\<rparr>"
  from parse_genbank_entry [OF assms]
  have "distinct (map fst genes)" and "map_of genes name = Some ?entry"
    by (simp_all add: info_of_def)
  from distinct_entry_split [OF this] obtain us vs where
    g: "genes = us @ (name, ?entry) # vs" and
    n: "name \<notin> fst ` set us" "name \<notin> fst ` set vs" by blast
  have "genes = us @ (name, ?entry) # vs \<and>
        name \<notin> fst ` set us \<and> name \<notin> fst ` set vs \<and>
        generate_labels genes other query_name subject_name =
          generate_labels us [] query_name subject_name @
          [query_name @ '' '' @ str_int (loc_start f) @ '' '' @ str_int (loc_end f) @
           '' '' @ name @ ''\<newline>''] @
          generate_labels vs other query_name subject_name \<and>
        generate_labels other genes query_name subject_name =
          generate_labels other us query_name subject_name @
          [subject_name @ '' '' @ str_int (loc_start f) @ '' '' @ str_int (loc_end f) @
           '' '' @ name @ ''\<newline>''] @
          generate_labels [] vs query_name subject_name"
    using g n by (simp add: generate_labels_eq label_line_def)
  then show ?thesis by blast
qed

lemma forget_setitem:
  "forget_strand (setitem d k v) = setitem (forget_strand d) k (v\<lparr>strand := ''-''\<rparr>)"
  by (induction d k v rule: setitem.induct) (simp_all add: forget_strand_def)

lemma gene_name_of_strand [simp]: "gene_name_of (f\<lparr>loc_strand := x\<rparr>) = gene_name_of f"
  by (simp add: gene_name_of_def split: sum.splits)

lemma info_of_strand: "(info_of (f\<lparr>loc_strand := x\<rparr>))\<lparr>strand := ''-''\<rparr> = (info_of f)\<lparr>strand := ''-''\<rparr>"
  by (simp add: info_of_def)

lemma features_loop_erase:
  "map (\<lambda>f. f\<lparr>loc_strand := None\<rparr>) fs = map (\<lambda>f. f\<lparr>loc_strand := None\<rparr>) fs' \<Longrightarrow>
   forget_strand d = forget_strand d' \<Longrightarrow>
   map_sum id forget_strand (features_loop fs d) = map_sum id forget_strand (features_loop fs' d')"
proof (induction fs arbitrary: fs' d d')
  case Nil
  then show ?case by simp
next
  case (Cons f fs)
  from Cons.prems(1) obtain f' fs'' where fs': "fs' = f' # fs''"
    and ff: "f\<lparr>loc_strand := None\<rparr> = f'\<lparr>loc_strand := None\<rparr>"
    and rest: "map (\<lambda>f. f\<lparr>loc_strand := None\<rparr>) fs = map (\<lambda>f. f\<lparr>loc_strand := None\<rparr>) fs''"
    by (cases fs') auto
  from ff have ty: "ftype f = ftype f'"
    by (metis feature.select_convs(1) feature.surjective feature.update_convs(5))
  from ff have nm: "gene_name_of f = gene_name_of f'"
    by (metis gene_name_of_strand)
  from ff have inf: "(info_of f)\<lparr>strand := ''-''\<rparr> = (info_of f')\<lparr>strand := ''-''\<rparr>"
    by (metis info_of_strand)
  show ?case
  proof (cases "ftype f = ''CDS''")
    case False
    with ty Cons.IH [OF rest Cons.prems(2)] show ?thesis by (simp add: fs')
  next
    case True
    show ?thesis
    proof (cases "gene_name_of f")
      case (Inl e)
      with nm have "gene_name_of f' = Inl e" by simp
      with Inl True ty show ?thesis by (simp add: fs')
    next
      case (Inr name)
      with nm have nm': "gene_name_of f' = Inr name" by simp
      have "forget_strand (setitem d name (info_of f)) = forget_strand (setitem d' name (info_of f'))"
        by (simp add: forget_setitem Cons.prems(2) inf)
      from Cons.IH [OF rest this] True ty nm' Inr show ?thesis by (simp add: fs')
    qed
  qed
qed

lemma records_loop_erase:
  "erase_strand recs = erase_strand recs' \<Longrightarrow> forget_strand d = forget_strand d' \<Longrightarrow>
   map_sum id (map_prod forget_strand id) (records_loop recs d n) =
   map_sum id (map_prod forget_strand id) (records_loop recs' d' n)"
proof (induction recs arbitrary: recs' d d' n)
  case Nil
  then show ?case by (simp add: erase_strand_def)
next
  case (Cons r recs)
  from Cons.prems(1) obtain r' recs'' where recs': "recs' = r' # recs''"
    and rr: "r\<lparr>features := map (\<lambda>f. f\<lparr>loc_strand := None\<rparr>) (features r)\<rparr> =
             r'\<lparr>features := map (\<lambda>f. f\<lparr>loc_strand := None\<rparr>) (features r')\<rparr>"
    and rest: "erase_strand recs = erase_strand recs''"
    by (cases recs') (auto simp: erase_strand_def)
  from rr have sq: "seq r = seq r'"
    by (metis seq_record.select_convs(1) seq_record.surjective seq_record.update_convs(2))
  from rr have fe: "map (\<lambda>f. f\<lparr>loc_strand := None\<rparr>) (features r) =
                    map (\<lambda>f. f\<lparr>loc_strand := None\<rparr>) (features r')"
    by (metis seq_record.select_convs(2) seq_record.surjective seq_record.update_convs(2))
  note fl = features_loop_erase [OF fe Cons.prems(2)]
  show ?case
  proof (cases "features_loop (features r) d")
    case (Inl e)
    with fl have "features_loop (features r') d' = Inl e"
      by (cases "features_loop (features r') d'") simp_all
    with Inl show ?thesis by (simp add: recs')
  next
    case (Inr g)
    with fl obtain g' where g': "features_loop (features r') d' = Inr g'"
      and gg: "forget_strand g = forget_strand g'"
      by (cases "features_loop (features r') d'") simp_all
    from Cons.IH [OF rest gg] Inr g' sq show ?thesis by (simp add: recs')
  qed
qed

lemma parse_genbank_erase:
  assumes "erase_strand recs = erase_strand recs'"
  shows "(\<exists>e. parse_genbank recs = Inl e \<and> parse_genbank recs' = Inl e) \<or>
         (\<exists>g g' n. parse_genbank recs = Inr (g, n) \<and> parse_genbank recs' = Inr (g', n) \<and>
            forget_strand g = forget_strand g')"
proof -
  have eq: "map_sum id (map_prod forget_strand id) (parse_genbank recs) =
        map_sum id (map_prod forget_strand id) (parse_genbank recs')"
    unfolding parse_genbank_def by (rule records_loop_erase [OF assms]) simp
  show ?thesis
  proof (cases "parse_genbank recs")
    case (Inl e)
    with eq show ?thesis by (cases "parse_genbank recs'") simp_all
  next
    case (Inr p)
    with eq show ?thesis by (cases "parse_genbank recs'"; cases p) auto
  qed
qed

lemma map_of_forget: "map_of (forget_strand d) k = map_option (\<lambda>v. v\<lparr>strand := ''-''\<rparr>) (map_of d k)"
  by (induction d) (auto simp: forget_strand_def)

lemma length_forget: "length (forget_strand d) = length d"
  by (simp add: forget_strand_def)

lemma labels_forget: "map (label_line name) (forget_strand d) = map (label_line name) d"
  by (simp add: forget_strand_def label_line_def split_def)

lemma resolved_forget: "resolved (forget_strand qg) (forget_strand sg) = resolved qg sg"
  by (rule ext) (simp add: resolved_def map_of_forget split: prod.splits)

lemma diagnostic_forget: "diagnostic (forget_strand qg) = diagnostic qg"
  by (rule ext) (simp add: diagnostic_def map_of_forget split: prod.splits)

lemma link_line_forget:
  "resolved qg sg a \<Longrightarrow>
     link_line (forget_strand qg) (forget_strand sg) qn sn a = link_line qg sg qn sn a"
  by (auto simp: resolved_def link_line_def map_of_forget split: prod.splits)

lemma generate_links_forget:
  "generate_links bd (forget_strand qg) (forget_strand sg) qn sn = generate_links bd qg sg qn sn"
  by (simp add: generate_links_eq resolved_forget diagnostic_forget link_line_forget
      cong: map_cong)

lemma generate_labels_forget:
  "generate_labels (forget_strand qg) (forget_strand sg) qn sn = generate_labels qg sg qn sn"
  by (simp add: generate_labels_eq labels_forget)

lemma emitters_forget:
  assumes "forget_strand qg = forget_strand qg'" "forget_strand sg = forget_strand sg'"
  shows "generate_links bd qg sg qn sn = generate_links bd qg' sg' qn sn"
    "generate_labels qg sg qn sn = generate_labels qg' sg' qn sn"
    "length qg = length qg'" "length sg = length sg'"
  using assms generate_links_forget [of bd qg sg qn sn] generate_links_forget [of bd qg' sg' qn sn]
    generate_labels_forget [of qg sg qn sn] generate_labels_forget [of qg' sg' qn sn]
    length_forget [of qg] length_forget [of qg'] length_forget [of sg] length_forget [of sg']
  by simp_all

text \<open>
  C10. Two runs whose annotation files differ only in the strand annotations of their
  features end the same way: the same exception if any, the same printed lines (the link
  count among them), and the same karyotype, labels and links files.
\<close>
theorem strand_never_observed:
  assumes "erase_strand query_gbk = erase_strand query_gbk'"
    and "erase_strand subject_gbk = erase_strand subject_gbk'"
  shows "main cvi cvf query_gbk subject_gbk blast_report qn sn kf lf lkf =
         main cvi cvf query_gbk' subject_gbk' blast_report qn sn kf lf lkf"
proof -
  from parse_genbank_erase [OF assms(1)] show ?thesis
  proof (elim disjE exE conjE)
    fix e assume "parse_genbank query_gbk = Inl e" "parse_genbank query_gbk' = Inl e"
    then show ?thesis by (simp add: main_def)
  next
    fix g g' n
    assume q: "parse_genbank query_gbk = Inr (g, n)" "parse_genbank query_gbk' = Inr (g', n)"
      and gg: "forget_strand g = forget_strand g'"
    from parse_genbank_erase [OF assms(2)] show ?thesis
    proof (elim disjE exE conjE)
      fix e assume "parse_genbank subject_gbk = Inl e" "parse_genbank subject_gbk' = Inl e"
      with q show ?thesis by (simp add: main_def)
    next
      fix h h' m
      assume s: "parse_genbank subject_gbk = Inr (h, m)" "parse_genbank subject_gbk' = Inr (h', m)"
        and hh: "forget_strand h = forget_strand h'"
      show ?thesis
        using q s
        by (cases "parse_blast_report cvi cvf blast_report")
           (simp_all add: main_def Let_def emitters_forget [OF gg hh])
    qed
  qed
qed

section \<open>Instances\<close>

theorem link_coordinates_witness:
  "map_of [(''geneA'', \<lparr>start = 1000, endpos = 1300, strand = ''+''\<rparr>)] ''geneA'' =
      Some \<lparr>start = 1000, endpos = 1300, strand = ''+''\<rparr> \<and>
   map_of [(''geneB'', \<lparr>start = 200, endpos = 500, strand = ''-''\<rparr>)] ''geneB'' =
      Some \<lparr>start = 200, endpos = 500, strand = ''-''\<rparr> \<and>
   fst (generate_links [(''geneA'', ''geneB'', 5, 50, 1, 40)]
          [(''geneA'', \<lparr>start = 1000, endpos = 1300, strand = ''+''\<rparr>)]
          [(''geneB'', \<lparr>start = 200, endpos = 500, strand = ''-''\<rparr>)]
          ''plastome'' ''mito'') =
     [''plastome 1005 1050 mito 201 240\<newline>'']"
  using link_coordinates [of "[(''geneA'', \<lparr>start = 1000, endpos = 1300, strand = ''+''\<rparr>)]"
      "''geneA''" "\<lparr>start = 1000, endpos = 1300, strand = ''+''\<rparr>"
      "[(''geneB'', \<lparr>start = 200, endpos = 500, strand = ''-''\<rparr>)]"
      "''geneB''" "\<lparr>start = 200, endpos = 500, strand = ''-''\<rparr>"
      "[]" 5 50 1 40 "[]" "''plastome''" "''mito''"]
  by (simp add: eval_defs)

theorem identity_filter_witness:
  "parse_row sample_int sample_float
     [''geneA'', ''geneB'', ''50.0'', ''100'', ''0'', ''0'', ''1'', ''50'', ''1'', ''40'',
      ''0.001'', ''200''] =
   Inr \<lparr>query_id = ''geneA'', subject_id = ''geneB'', identity = Finite 50,
        alignment_length = 100, mismatches = 0, gap_opens = 0, q_start = 1, q_end = 50,
        s_start = 1, s_end = 40, evalue = Finite (1152921504606847 / 1152921504606846976), bit_score = Finite 200\<rparr> \<and>
   parse_blast_report sample_int sample_float
     [[''geneA'', ''geneB'', ''49.999'', ''100'', ''0'', ''0'', ''1'', ''40'', ''1'', ''50'',
       ''0.001'', ''200'']] = Inr [] \<and>
   parse_blast_report sample_int sample_float
     [[''geneA'', ''geneB'', ''50.0'', ''100'', ''0'', ''0'', ''1'', ''50'', ''1'', ''40'',
       ''0.001'', ''200''],
      [''geneA'', ''geneB'', ''49.999'', ''100'', ''0'', ''0'', ''1'', ''40'', ''1'', ''50'',
       ''0.001'', ''200'']] =
   Inr [(''geneA'', ''geneB'', 1, 50, 1, 40)]"
  using identity_filter [of sample_int sample_float
      "[''geneA'', ''geneB'', ''50.0'', ''100'', ''0'', ''0'', ''1'', ''50'', ''1'', ''40'',
        ''0.001'', ''200'']"
      "\<lparr>query_id = ''geneA'', subject_id = ''geneB'', identity = Finite 50,
        alignment_length = 100, mismatches = 0, gap_opens = 0, q_start = 1, q_end = 50,
        s_start = 1, s_end = 40, evalue = Finite (1152921504606847 / 1152921504606846976), bit_score = Finite 200\<rparr>"
      "[]" "[]"
      "[[''geneA'', ''geneB'', ''49.999'', ''100'', ''0'', ''0'', ''1'', ''40'', ''1'', ''50'',
        ''0.001'', ''200'']]" "[]"]
  by (simp add: eval_defs)

theorem malformed_row_aborts_witness:
  "length [''geneA'', ''geneB'', ''10.0'', ''100'', ''0'', ''0'', ''1'', ''50'', ''1'', ''40'',
           ''0.001''] < 12 \<and>
   sample_float ''10.0'' = Some (Finite 10) \<and> \<not> float_ge (Finite 10) 50 \<and>
   parse_blast_report sample_int sample_float
     [[''geneA'', ''geneB'', ''80'', ''100'', ''0'', ''0'', ''1'', ''50'', ''1'', ''40'',
       ''0.001'', ''200''],
      [''geneA'', ''geneB'', ''10.0'', ''100'', ''0'', ''0'', ''1'', ''50'', ''1'', ''40'',
       ''0.001'']] = Inl IndexError \<and>
   sample_int ''x'' = None \<and>
   parse_blast_report sample_int sample_float
     [[''geneA'', ''geneB'', ''10.0'', ''x'', ''0'', ''0'', ''1'', ''50'', ''1'', ''40'',
       ''0.001'', ''200'']] = Inl ValueError"
  using malformed_row_aborts [of
      "[''geneA'', ''geneB'', ''10.0'', ''100'', ''0'', ''0'', ''1'', ''50'', ''1'', ''40'',
        ''0.001'']" sample_float sample_int
      "[[''geneA'', ''geneB'', ''80'', ''100'', ''0'', ''0'', ''1'', ''50'', ''1'', ''40'',
         ''0.001'', ''200'']]" "[]"]
  by (simp add: eval_defs)

theorem karyotype_two_lines_witness:
  "generate_karyotype 10000 8000 ''plastome'' ''mito'' =
     [''chr - plastome plastome 0 10000 green\<newline>'', ''chr - mito mito 0 8000 blue\<newline>''] \<and>
   int_of_decimal ''10000'' = 10000 \<and> int_of_decimal ''8000'' = 8000"
  using karyotype_two_lines [of 10000 8000 "''plastome''" "''mito''"]
  by (simp add: str_int_def digits.simps digit_char_def int_of_decimal_def decimal_value_def
      digit_value_def)

theorem unresolved_row_skipped_witness:
  "(map_of [(''geneA'', \<lparr>start = 1000, endpos = 1300, strand = ''+''\<rparr>)] ''geneX'' = None \<or>
    map_of [(''geneB'', \<lparr>start = 200, endpos = 500, strand = ''-''\<rparr>)] ''geneB'' = None) \<and>
   generate_links [(''geneX'', ''geneB'', 1, 50, 1, 40), (''geneA'', ''geneB'', 5, 50, 1, 40)]
     [(''geneA'', \<lparr>start = 1000, endpos = 1300, strand = ''+''\<rparr>)]
     [(''geneB'', \<lparr>start = 200, endpos = 500, strand = ''-''\<rparr>)]
     ''plastome'' ''mito'' =
   ([''plastome 1005 1050 mito 201 240\<newline>''],
    [''Query gene geneX not found in query GenBank file.'', ''Generated 1 links.''])"
  using unresolved_row_skipped [of
      "[(''geneA'', \<lparr>start = 1000, endpos = 1300, strand = ''+''\<rparr>)]" "''geneX''"
      "[(''geneB'', \<lparr>start = 200, endpos = 500, strand = ''-''\<rparr>)]" "''geneB''"
      "[]" 1 50 1 40 "[(''geneA'', ''geneB'', 5, 50, 1, 40)]" "''plastome''" "''mito''"]
  by (simp add: eval_defs)

theorem rows_and_links_in_input_order_witness:
  "parse_blast_report sample_int sample_float
     [[''geneB'', ''geneA'', ''80'', ''100'', ''0'', ''0'', ''1'', ''50'', ''1'', ''40'',
       ''0.001'', ''200''],
      [''geneA'', ''geneA'', ''10.0'', ''100'', ''0'', ''0'', ''1'', ''50'', ''1'', ''40'',
       ''0.001'', ''200''],
      [''geneA'', ''geneB'', ''50.0'', ''100'', ''0'', ''0'', ''0'', ''40'', ''1'', ''50'',
       ''0.001'', ''200''],
      [''geneB'', ''geneA'', ''80'', ''100'', ''0'', ''0'', ''1'', ''50'', ''1'', ''40'',
       ''0.001'', ''200'']] =
   Inr [(''geneB'', ''geneA'', 1, 50, 1, 40), (''geneA'', ''geneB'', 0, 40, 1, 50),
        (''geneB'', ''geneA'', 1, 50, 1, 40)] \<and>
   fst (generate_links
          [(''geneB'', ''geneA'', 1, 50, 1, 40), (''geneA'', ''geneB'', 0, 40, 1, 50),
           (''geneB'', ''geneA'', 1, 50, 1, 40)]
          [(''geneA'', \<lparr>start = 1000, endpos = 1300, strand = ''+''\<rparr>),
           (''geneB'', \<lparr>start = 10, endpos = 90, strand = ''+''\<rparr>)]
          [(''geneA'', \<lparr>start = 200, endpos = 500, strand = ''-''\<rparr>)]
          ''plastome'' ''mito'') =
     [''plastome 11 60 mito 201 240\<newline>'', ''plastome 11 60 mito 201 240\<newline>'']"
  using rows_and_links_in_input_order [of sample_int sample_float
      "[[''geneB'', ''geneA'', ''80'', ''100'', ''0'', ''0'', ''1'', ''50'', ''1'', ''40'',
         ''0.001'', ''200''],
        [''geneA'', ''geneA'', ''10.0'', ''100'', ''0'', ''0'', ''1'', ''50'', ''1'', ''40'',
         ''0.001'', ''200''],
        [''geneA'', ''geneB'', ''50.0'', ''100'', ''0'', ''0'', ''0'', ''40'', ''1'', ''50'',
         ''0.001'', ''200''],
        [''geneB'', ''geneA'', ''80'', ''100'', ''0'', ''0'', ''1'', ''50'', ''1'', ''40'',
         ''0.001'', ''200'']]"
      "[(''geneB'', ''geneA'', 1, 50, 1, 40), (''geneA'', ''geneB'', 0, 40, 1, 50),
        (''geneB'', ''geneA'', 1, 50, 1, 40)]"
      "[(''geneA'', \<lparr>start = 1000, endpos = 1300, strand = ''+''\<rparr>),
        (''geneB'', \<lparr>start = 10, endpos = 90, strand = ''+''\<rparr>)]"
      "[(''geneA'', \<lparr>start = 200, endpos = 500, strand = ''-''\<rparr>)]"
      "''plastome''" "''mito''"]
  by (simp add: eval_defs)

theorem last_write_wins_witness:
  "parse_genbank
     [\<lparr>seq = ''ACGTACGT'',
       features =
         [\<lparr>ftype = ''CDS'', qualifiers = [''gene'' \<mapsto> [''rbcL'']], loc_start = 10,
           loc_end = 20, loc_strand = Some (- 1)\<rparr>,
          \<lparr>ftype = ''gene'', qualifiers = [''gene'' \<mapsto> [''rbcL'']], loc_start = 1,
           loc_end = 99, loc_strand = Some 1\<rparr>,
          \<lparr>ftype = ''CDS'', qualifiers = [''gene'' \<mapsto> [''rbcL'']], loc_start = 30,
           loc_end = 40, loc_strand = Some 1\<rparr>,
          \<lparr>ftype = ''CDS'', qualifiers = [''locus_tag'' \<mapsto> [''b0002'']], loc_start = 50,
           loc_end = 60, loc_strand = None\<rparr>]\<rparr>] =
   Inr ([(''rbcL'', \<lparr>start = 30, endpos = 40, strand = ''+''\<rparr>),
      (''b0002'', \<lparr>start = 50, endpos = 60, strand = ''-''\<rparr>)], 8) \<and>
   cds_of
     [\<lparr>seq = ''ACGTACGT'',
       features =
         [\<lparr>ftype = ''CDS'', qualifiers = [''gene'' \<mapsto> [''rbcL'']], loc_start = 10,
           loc_end = 20, loc_strand = Some (- 1)\<rparr>,
          \<lparr>ftype = ''gene'', qualifiers = [''gene'' \<mapsto> [''rbcL'']], loc_start = 1,
           loc_end = 99, loc_strand = Some 1\<rparr>,
          \<lparr>ftype = ''CDS'', qualifiers = [''gene'' \<mapsto> [''rbcL'']], loc_start = 30,
           loc_end = 40, loc_strand = Some 1\<rparr>,
          \<lparr>ftype = ''CDS'', qualifiers = [''locus_tag'' \<mapsto> [''b0002'']], loc_start = 50,
           loc_end = 60, loc_strand = None\<rparr>]\<rparr>] =
   [\<lparr>ftype = ''CDS'', qualifiers = [''gene'' \<mapsto> [''rbcL'']], loc_start = 10,
           loc_end = 20, loc_strand = Some (- 1)\<rparr>] @
   \<lparr>ftype = ''CDS'', qualifiers = [''gene'' \<mapsto> [''rbcL'']], loc_start = 30,
           loc_end = 40, loc_strand = Some 1\<rparr> #
   [\<lparr>ftype = ''CDS'', qualifiers = [''locus_tag'' \<mapsto> [''b0002'']], loc_start = 50,
           loc_end = 60, loc_strand = None\<rparr>] \<and>
   gene_name_of
     \<lparr>ftype = ''CDS'', qualifiers = [''gene'' \<mapsto> [''rbcL'']], loc_start = 30,
           loc_end = 40, loc_strand = Some 1\<rparr> = Inr ''rbcL'' \<and>
   gene_name_of
     \<lparr>ftype = ''CDS'', qualifiers = [''locus_tag'' \<mapsto> [''b0002'']], loc_start = 50,
           loc_end = 60, loc_strand = None\<rparr> \<noteq> Inr ''rbcL'' \<and>
   generate_labels
     [(''rbcL'', \<lparr>start = 30, endpos = 40, strand = ''+''\<rparr>),
      (''b0002'', \<lparr>start = 50, endpos = 60, strand = ''-''\<rparr>)] [] ''plastome'' ''mito'' =
   [''plastome 30 40 rbcL\<newline>'', ''plastome 50 60 b0002\<newline>'']"
  using last_write_wins [of
      "[\<lparr>seq = ''ACGTACGT'',
       features =
         [\<lparr>ftype = ''CDS'', qualifiers = [''gene'' \<mapsto> [''rbcL'']], loc_start = 10,
           loc_end = 20, loc_strand = Some (- 1)\<rparr>,
          \<lparr>ftype = ''gene'', qualifiers = [''gene'' \<mapsto> [''rbcL'']], loc_start = 1,
           loc_end = 99, loc_strand = Some 1\<rparr>,
          \<lparr>ftype = ''CDS'', qualifiers = [''gene'' \<mapsto> [''rbcL'']], loc_start = 30,
           loc_end = 40, loc_strand = Some 1\<rparr>,
          \<lparr>ftype = ''CDS'', qualifiers = [''locus_tag'' \<mapsto> [''b0002'']], loc_start = 50,
           loc_end = 60, loc_strand = None\<rparr>]\<rparr>]"
      "[(''rbcL'', \<lparr>start = 30, endpos = 40, strand = ''+''\<rparr>),
      (''b0002'', \<lparr>start = 50, endpos = 60, strand = ''-''\<rparr>)]" 8
      "[\<lparr>ftype = ''CDS'', qualifiers = [''gene'' \<mapsto> [''rbcL'']], loc_start = 10,
           loc_end = 20, loc_strand = Some (- 1)\<rparr>]"
      "\<lparr>ftype = ''CDS'', qualifiers = [''gene'' \<mapsto> [''rbcL'']], loc_start = 30,
           loc_end = 40, loc_strand = Some 1\<rparr>"
      "[\<lparr>ftype = ''CDS'', qualifiers = [''locus_tag'' \<mapsto> [''b0002'']], loc_start = 50,
           loc_end = 60, loc_strand = None\<rparr>]" "''rbcL''" "[]" "''plastome''" "''mito''"]
  by (simp add: genbank_defs)

theorem strand_never_observed_witness:
  "erase_strand
     [\<lparr>seq = ''ACGTACGT'',
       features = [\<lparr>ftype = ''CDS'', qualifiers = [''gene'' \<mapsto> [''geneA'']], loc_start = 1000,
                    loc_end = 1300, loc_strand = Some 1\<rparr>]\<rparr>] =
   erase_strand
     [\<lparr>seq = ''ACGTACGT'',
       features = [\<lparr>ftype = ''CDS'', qualifiers = [''gene'' \<mapsto> [''geneA'']], loc_start = 1000,
                    loc_end = 1300, loc_strand = Some (- 1)\<rparr>]\<rparr>] \<and>
   main sample_int sample_float
     [\<lparr>seq = ''ACGTACGT'',
       features = [\<lparr>ftype = ''CDS'', qualifiers = [''gene'' \<mapsto> [''geneA'']], loc_start = 1000,
                    loc_end = 1300, loc_strand = Some 1\<rparr>]\<rparr>]
     [] [[''geneA'', ''geneB'', ''80'', ''100'', ''0'', ''0'', ''1'', ''50'', ''1'', ''40'',
          ''0.001'', ''200'']] ''plastome'' ''mito'' ''k.txt'' ''l.txt'' ''n.txt'' =
   main sample_int sample_float
     [\<lparr>seq = ''ACGTACGT'',
       features = [\<lparr>ftype = ''CDS'', qualifiers = [''gene'' \<mapsto> [''geneA'']], loc_start = 1000,
                    loc_end = 1300, loc_strand = Some (- 1)\<rparr>]\<rparr>]
     [] [[''geneA'', ''geneB'', ''80'', ''100'', ''0'', ''0'', ''1'', ''50'', ''1'', ''40'',
          ''0.001'', ''200'']] ''plastome'' ''mito'' ''k.txt'' ''l.txt'' ''n.txt''"
  using strand_never_observed [of
      "[\<lparr>seq = ''ACGTACGT'',
         features = [\<lparr>ftype = ''CDS'', qualifiers = [''gene'' \<mapsto> [''geneA'']],
                      loc_start = 1000, loc_end = 1300, loc_strand = Some 1\<rparr>]\<rparr>]"
      "[\<lparr>seq = ''ACGTACGT'',
         features = [\<lparr>ftype = ''CDS'', qualifiers = [''gene'' \<mapsto> [''geneA'']],
                      loc_start = 1000, loc_end = 1300, loc_strand = Some (- 1)\<rparr>]\<rparr>]"
      "[]" "[]" sample_int sample_float
      "[[''geneA'', ''geneB'', ''80'', ''100'', ''0'', ''0'', ''1'', ''50'', ''1'', ''40'',
         ''0.001'', ''200'']]" "''plastome''" "''mito''" "''k.txt''" "''l.txt''" "''n.txt''"]
  by (simp add: erase_strand_def)

text \<open>
  C1. The genome length is meant to be the sequence length of the first record of the file.
  The loop assigns \<^verbatim>\<open>contig_length\<close> at every record, so what \<open>parse_genbank\<close> returns
  is the length of the last one: on a file with two records of lengths 8 and 3 it
  returns 3.
\<close>
theorem parse_genbank_keeps_last_length:
  "parse_genbank [\<lparr>seq = ''ACGTACGT'', features = []\<rparr>, \<lparr>seq = ''ACG'', features = []\<rparr>] =
     Inr ([], 3)"
  by (simp add: parse_genbank_def)

text \<open>
  C5. The identifier of a coding feature is meant to be its \<^verbatim>\<open>gene\<close> qualifier when it
  has one. The test for a missing qualifier compares the value with the placeholder, so a
  feature whose \<^verbatim>\<open>gene\<close> qualifier is the string \<^verbatim>\<open>unknown\<close> and which has a
  \<^verbatim>\<open>locus_tag\<close> is given the locus tag.
\<close>
theorem gene_named_unknown_uses_locus_tag:
  "gene_name_of \<lparr>ftype = ''CDS'',
       qualifiers = [''gene'' \<mapsto> [''unknown''], ''locus_tag'' \<mapsto> [''b0001'']],
       loc_start = 100, loc_end = 400, loc_strand = Some 1\<rparr> = Inr ''b0001''"
  by (simp add: gene_name_of_def get_first_def)

lemma gene_name_of_cases:
  "qualifiers f ''gene'' = Some (g # gs) \<Longrightarrow> g \<noteq> ''unknown'' \<Longrightarrow> gene_name_of f = Inr g"
  "qualifiers f ''gene'' = None \<Longrightarrow> qualifiers f ''locus_tag'' = Some (t # ts) \<Longrightarrow>
     gene_name_of f = Inr t"
  "qualifiers f ''gene'' = None \<Longrightarrow> qualifiers f ''locus_tag'' = None \<Longrightarrow>
     gene_name_of f = Inr ''unknown''"
  "qualifiers f ''gene'' = Some (''unknown'' # gs) \<Longrightarrow>
     gene_name_of f = get_first (qualifiers f) ''locus_tag''"
  by (simp_all add: gene_name_of_def get_first_def)

lemma parse_genbank_length:
  "parse_genbank recs = Inr (genes, n) \<Longrightarrow>
     n = (if recs = [] then 0 else int (length (seq (last recs))))"
  unfolding parse_genbank_def by (rule records_loop_length)

end
